theory Spec2Isabelle
  imports Main
begin

section \<open>Cluster operations: the descriptor and its validators\<close>

text \<open>
  A shallow embedding of \<^verbatim>\<open>internal/cli/cmd/cluster/operations.go\<close>: the
  \<^verbatim>\<open>OperationsOptions\<close> struct and the methods \<^verbatim>\<open>CompleteRestartOps\<close>,
  \<^verbatim>\<open>validateUpgrade\<close>, \<^verbatim>\<open>validateVolumeExpansion\<close>,
  \<^verbatim>\<open>validateHorizontalScaling\<close>, \<^verbatim>\<open>validateReconfiguring\<close>,
  \<^verbatim>\<open>validateConfigParams\<close>, \<^verbatim>\<open>validateTemplateParam\<close>,
  \<^verbatim>\<open>validateConfigMapKey\<close>, \<^verbatim>\<open>validateUpdatedParams\<close> and
  \<^verbatim>\<open>Validate\<close>.

  The Go methods mutate the receiver through a pointer and return an \<^verbatim>\<open>error\<close>;
  here a method takes the descriptor and returns the error (\<open>None\<close> for \<^verbatim>\<open>nil\<close>)
  together with the descriptor as the method leaves it, also when it fails.
\<close>

subsection \<open>Data\<close>

text \<open>
  Modelled from the spec: the declaration of \<^verbatim>\<open>dbaasv1alpha1.OpsType\<close> is outside
  this file. The operation kind is one of Restart, Upgrade, VerticalScale,
  HorizontalScale, VolumeExpand and Reconfigure; these are the six constants that the
  commands of this file construct (\<^verbatim>\<open>NewRestartCmd\<close>, \<^verbatim>\<open>NewUpgradeCmd\<close>, ...) and
  that \<^verbatim>\<open>Validate\<close> compares with.
\<close>

datatype OpsType =
    UpgradeType
  | VerticalScalingType
  | VolumeExpansionType
  | HorizontalScalingType
  | RestartType
  | ReconfiguringType

text \<open>
  Errors as values. \<open>Errorf m\<close> is \<^verbatim>\<open>fmt.Errorf(m)\<close>. The declarations of
  \<^verbatim>\<open>cfgcore.MakeError\<close> and \<^verbatim>\<open>cfgcore.WrapError\<close> are outside this file: they
  are kept as constructors, \<open>MakeError m\<close> with the format already applied to its
  arguments and \<open>WrapError e m\<close> with the wrapped error and the formatted message.
  \<open>CollaboratorError m\<close> stands for an error that a collaborator outside this file
  produces (the resource client, the filesystem, the confirmation prompt, the schema
  engine).
\<close>

datatype error =
    Errorf string
  | MakeError string
  | WrapError error string
  | CollaboratorError string

text \<open>
  \<^verbatim>\<open>OperationsOptions\<close>. \<open>Name\<close> and \<open>Namespace\<close> are the fields of the embedded
  \<^verbatim>\<open>create.BaseOptions\<close> that the validators read; its client and input stream are
  the environment below. \<^verbatim>\<open>KeyValues\<close> is a Go map that is only written and handed
  on, so it is a HOL map.
\<close>

record OperationsOptions =
  Name :: string
  Namespace :: string
  ComponentNames :: "string list"
  OpsRequestName :: string
  TTLSecondsAfterSucceed :: int
  OpsType :: OpsType
  OpsTypeLower :: string
  ClusterVersionRef :: string
  RequestCPU :: string
  RequestMemory :: string
  LimitCPU :: string
  LimitMemory :: string
  Replicas :: int
  URLPath :: string
  Parameters :: "string list"
  KeyValues :: "string \<rightharpoonup> string"
  CfgTemplateName :: string
  CfgFile :: string
  VCTNames :: "string list"
  Storage :: string

text \<open>
  Modelled from the spec: the declaration of \<^verbatim>\<open>dbaasv1alpha1.ConfigTemplate\<close> is
  outside this file. A config template reference identifies a named template, a backing
  config-map name (the "volume name") and a reference to a config constraint: the three
  fields this file reads (\<^verbatim>\<open>Name\<close>, \<^verbatim>\<open>VolumeName\<close>, \<^verbatim>\<open>ConfigConstraintRef\<close>).
\<close>

record ConfigTemplate =
  tplName :: string
  tplVolumeName :: string
  tplConfigConstraintRef :: string

text \<open>
  \<^verbatim>\<open>corev1.ConfigMap.Data\<close> is a Go map whose size is taken and whose keys are
  ranged over: it is the list of its entries, one per key.
\<close>

type_synonym ConfigMapData = "(string \<times> string) list"

subsection \<open>Collaborators\<close>

text \<open>
  What the validators call outside this file, as parameters: \<^verbatim>\<open>os.Stat\<close> (\<open>None\<close>
  when the path exists), the dynamic client's \<^verbatim>\<open>Get\<close> of the cluster record
  (namespace, name), \<^verbatim>\<open>unstructured.NestedStringSlice\<close> (value, found, error),
  \<^verbatim>\<open>util.GetConfigTemplateList\<close> (cluster, namespace, component),
  \<^verbatim>\<open>cfgcore.GetComponentCfgName\<close>, \<^verbatim>\<open>util.GetResourceObjectFromGVR\<close> at the
  config map resource (namespace, name) and at the config constraint resource (name),
  \<^verbatim>\<open>cfgcore.MergeAndValidateConfiguration\<close> (constraint, base files, file key, updated
  parameters) and \<^verbatim>\<open>delete.Confirm\<close>.
\<close>

record ('obj, 'cc) Env =
  Stat :: "string \<Rightarrow> error option"
  ClusterGet :: "string \<Rightarrow> string \<Rightarrow> error + 'obj"
  NestedStringSlice :: "'obj \<Rightarrow> string list \<Rightarrow> string list \<times> bool \<times> error option"
  GetConfigTemplateList :: "string \<Rightarrow> string \<Rightarrow> string \<Rightarrow> error + ConfigTemplate list"
  GetComponentCfgName :: "string \<Rightarrow> string \<Rightarrow> string \<Rightarrow> string"
  GetConfigMap :: "string \<Rightarrow> string \<Rightarrow> error + ConfigMapData"
  GetConfigConstraint :: "string \<Rightarrow> error + 'cc"
  MergeAndValidateConfiguration ::
    "'cc \<Rightarrow> (string \<times> string) list \<Rightarrow> string \<Rightarrow> (string \<rightharpoonup> string) \<Rightarrow> error option"
  Confirm :: "string list \<Rightarrow> error option"

text \<open>
  Every call to a collaborator is recorded, in order, so that "no lookup happened" is a
  statement about the record of calls.
\<close>

datatype event =
    LocalStat string
  | RemoteGetCluster string string
  | RemoteGetTemplateList string string string
  | RemoteGetConfigMap string string
  | RemoteGetConfigConstraint string
  | AskConfirm "string list"

record run =
  opts :: OperationsOptions
  calls :: "event list"

definition called :: "run \<Rightarrow> event \<Rightarrow> run" where
  "called st ev = st\<lparr>calls := calls st @ [ev]\<rparr>"

subsection \<open>Go's strings.Split and strings.SplitN for a one-byte separator\<close>

text \<open>
  \<open>Split sep s\<close> is \<^verbatim>\<open>strings.Split(s, sep)\<close>: the pieces between the separators, so
  one piece more than there are separators, and \<open>[[]]\<close> for the empty string.
  \<open>SplitN2 sep s\<close> is \<^verbatim>\<open>strings.SplitN(s, sep, 2)\<close>: the text before the first
  separator and the text after it, or the whole string alone when it has no separator.
\<close>

fun Split :: "char \<Rightarrow> string \<Rightarrow> string list" where
  "Split sep [] = [[]]"
| "Split sep (c # cs) =
     (if c = sep then [] # Split sep cs
      else (c # hd (Split sep cs)) # tl (Split sep cs))"

definition SplitN2 :: "char \<Rightarrow> string \<Rightarrow> string list" where
  "SplitN2 sep s =
     (if sep \<in> set s
      then [takeWhile (\<lambda>c. c \<noteq> sep) s, tl (dropWhile (\<lambda>c. c \<noteq> sep) s)]
      else [s])"

subsection \<open>CompleteRestartOps\<close>

definition CompleteRestartOps :: "('obj, 'cc) Env \<Rightarrow> run \<Rightarrow> error option \<times> run" where
  "CompleteRestartOps env st =
     (if length (ComponentNames (opts st)) \<noteq> 0 then (None, st)
      else
        let st1 = called st (RemoteGetCluster (Namespace (opts st)) (Name (opts st))) in
        case ClusterGet env (Namespace (opts st)) (Name (opts st)) of
          Inl err \<Rightarrow> (Some err, st1)
        | Inr unstructuredObj \<Rightarrow>
            (case NestedStringSlice env unstructuredObj [''status'', ''operations'', ''restartable''] of
               (names, found, err) \<Rightarrow>
                 (err, st1\<lparr>opts := (opts st1)\<lparr>ComponentNames := names\<rparr>\<rparr>)))"

subsection \<open>The validators of the simple kinds\<close>

definition confirm :: "('obj, 'cc) Env \<Rightarrow> run \<Rightarrow> string list \<Rightarrow> error option \<times> run" where
  "confirm env st names = (Confirm env names, called st (AskConfirm names))"

definition validateUpgrade :: "('obj, 'cc) Env \<Rightarrow> run \<Rightarrow> error option \<times> run" where
  "validateUpgrade env st =
     (if length (ClusterVersionRef (opts st)) = 0 then (Some (Errorf ''missing cluster-version''), st)
      else confirm env st [Name (opts st)])"

definition validateVolumeExpansion :: "OperationsOptions \<Rightarrow> error option" where
  "validateVolumeExpansion ops =
     (if length (VCTNames ops) = 0 then Some (Errorf ''missing volume-claim-template-names'')
      else if length (Storage ops) = 0 then Some (Errorf ''missing storage'')
      else None)"

definition validateHorizontalScaling :: "OperationsOptions \<Rightarrow> error option" where
  "validateHorizontalScaling ops =
     (if Replicas ops < - 1 then Some (Errorf ''replicas required natural number'')
      else None)"

subsection \<open>The validators of Reconfigure\<close>

text \<open>
  \<^verbatim>\<open>validateUpdatedParams\<close>: the inner loop over the pieces of one list entry, the
  outer loop over the entries, and the method. Both loops store into the map as they
  go, and the first malformed piece ends both.
\<close>

fun parsePairs :: "string list \<Rightarrow> (string \<rightharpoonup> string) \<Rightarrow> error option \<times> (string \<rightharpoonup> string)" where
  "parsePairs [] kv = (None, kv)"
| "parsePairs (p # pp) kv =
     (let fields = SplitN2 (CHR ''='') p in
      if length fields \<noteq> 2 then (Some (MakeError ''updated parameter formatter: key=value''), kv)
      else parsePairs pp (kv(fields ! 0 \<mapsto> fields ! 1)))"

fun parseParams :: "string list \<Rightarrow> (string \<rightharpoonup> string) \<Rightarrow> error option \<times> (string \<rightharpoonup> string)" where
  "parseParams [] kv = (None, kv)"
| "parseParams (param # rest) kv =
     (case parsePairs (Split (CHR '','') param) kv of
        (Some err, kv') \<Rightarrow> (Some err, kv')
      | (None, kv') \<Rightarrow> parseParams rest kv')"

definition validateUpdatedParams :: "OperationsOptions \<Rightarrow> error option \<times> OperationsOptions" where
  "validateUpdatedParams ops =
     (if length (Parameters ops) = 0 \<and> length (URLPath ops) = 0
      then (Some (MakeError ''reconfiguring required configure file or updated parameters.''), ops)
      else
        case parseParams (Parameters ops) Map.empty of
          (err, kv) \<Rightarrow> (err, ops\<lparr>KeyValues := kv\<rparr>))"

text \<open>
  \<^verbatim>\<open>validateTemplateParam\<close> returns the chosen template or the error, and the
  descriptor (the auto-fill writes the template's name into it).
\<close>

definition validateTemplateParam ::
  "OperationsOptions \<Rightarrow> ConfigTemplate list \<Rightarrow> (error + ConfigTemplate) \<times> OperationsOptions" where
  "validateTemplateParam ops tpls =
     (if length tpls = 0
      then (Inl (MakeError ''not support reconfiguring because there is no config template.''), ops)
      else if length (CfgTemplateName ops) = 0 \<and> length tpls > 1
      then (Inl (MakeError ''when multi templates exist, must specify which template to use.''), ops)
      else if length (CfgTemplateName ops) = 0 \<and> length tpls = 1
      then (Inr (tpls ! 0), ops\<lparr>CfgTemplateName := tplName (tpls ! 0)\<rparr>)
      else
        case find (\<lambda>tpl. tplName tpl = CfgTemplateName ops) tpls of
          Some tpl \<Rightarrow> (Inr tpl, ops)
        | None \<Rightarrow>
            (Inl (MakeError (''specify template name['' @ CfgTemplateName ops @ ''] is not exist.'')),
             ops))"

definition validateConfigMapKey ::
  "('obj, 'cc) Env \<Rightarrow> run \<Rightarrow> ConfigTemplate \<Rightarrow> string \<Rightarrow> error option \<times> run" where
  "validateConfigMapKey env st tpl componentName =
     (let cmName = GetComponentCfgName env (Name (opts st)) componentName (tplVolumeName tpl);
          st1 = called st (RemoteGetConfigMap (Namespace (opts st)) cmName)
      in
        case GetConfigMap env (Namespace (opts st)) cmName of
          Inl err \<Rightarrow> (Some err, st1)
        | Inr cmData \<Rightarrow>
            if length cmData = 0
            then (Some (MakeError ''not support reconfiguring because there is no config file.''), st1)
            else if length (CfgFile (opts st)) = 0 \<and> length cmData = 1
            then (None, st1\<lparr>opts := (opts st1)\<lparr>CfgFile := fst (hd cmData)\<rparr>\<rparr>)
            else if map_of cmData (CfgFile (opts st)) = None
            then (Some (MakeError (''specify file name['' @ CfgFile (opts st) @ ''] is not exist.'')), st1)
            else (None, st1))"

definition validateConfigParams ::
  "('obj, 'cc) Env \<Rightarrow> run \<Rightarrow> ConfigTemplate \<Rightarrow> string \<Rightarrow> error option \<times> run" where
  "validateConfigParams env st tpl componentName =
     (let st1 = called st (RemoteGetConfigConstraint (tplConfigConstraintRef tpl)) in
        case GetConfigConstraint env (tplConfigConstraintRef tpl) of
          Inl err \<Rightarrow> (Some err, st1)
        | Inr configConstraint \<Rightarrow>
            (MergeAndValidateConfiguration env configConstraint
               [(CfgFile (opts st), '''')] (CfgFile (opts st)) (KeyValues (opts st)),
             st1))"

definition validateReconfiguring :: "('obj, 'cc) Env \<Rightarrow> run \<Rightarrow> error option \<times> run" where
  "validateReconfiguring env st =
     (if length (ComponentNames (opts st)) \<noteq> 1
      then (Some (MakeError ''reconfiguring only support one component.''), st)
      else if length (URLPath (opts st)) \<noteq> 0
      then
        (case Stat env (URLPath (opts st)) of
           Some err \<Rightarrow>
             (Some (WrapError err (''failed to check if '' @ URLPath (opts st) @ '' exists'')),
              called st (LocalStat (URLPath (opts st))))
         | None \<Rightarrow> (None, called st (LocalStat (URLPath (opts st)))))
      else
        case validateUpdatedParams (opts st) of
          (Some err, ops1) \<Rightarrow>
            (Some (WrapError err ''failed to validate updated params.''), st\<lparr>opts := ops1\<rparr>)
        | (None, ops1) \<Rightarrow>
            let componentName = ComponentNames ops1 ! 0;
                st2 = called (st\<lparr>opts := ops1\<rparr>)
                        (RemoteGetTemplateList (Name ops1) (Namespace ops1) componentName)
            in
              (case GetConfigTemplateList env (Name ops1) (Namespace ops1) componentName of
                 Inl err \<Rightarrow> (Some err, st2)
               | Inr tplList \<Rightarrow>
                   (case validateTemplateParam ops1 tplList of
                      (Inl err, ops2) \<Rightarrow> (Some err, st2\<lparr>opts := ops2\<rparr>)
                    | (Inr tpl, ops2) \<Rightarrow>
                        (case validateConfigMapKey env (st2\<lparr>opts := ops2\<rparr>) tpl componentName of
                           (Some err, st3) \<Rightarrow> (Some err, st3)
                         | (None, st3) \<Rightarrow> validateConfigParams env st3 tpl componentName))))"

subsection \<open>Validate\<close>

definition Validate :: "('obj, 'cc) Env \<Rightarrow> run \<Rightarrow> error option \<times> run" where
  "Validate env st =
     (if Name (opts st) = [] then (Some (Errorf ''missing cluster name''), st)
      else if OpsType (opts st) = UpgradeType then validateUpgrade env st
      else if length (ComponentNames (opts st)) = 0 then (Some (Errorf ''missing component-names''), st)
      else
        case (case OpsType (opts st) of
                VolumeExpansionType \<Rightarrow> (validateVolumeExpansion (opts st), st)
              | HorizontalScalingType \<Rightarrow> (validateHorizontalScaling (opts st), st)
              | ReconfiguringType \<Rightarrow> validateReconfiguring env st
              | _ \<Rightarrow> (None, st)) of
          (Some err, st1) \<Rightarrow> (Some err, st1)
        | (None, st1) \<Rightarrow> confirm env st1 [Name (opts st1)])"

subsection \<open>The pieces of a parameter list\<close>

text \<open>
  The pieces of a parameter list, in the order in which the two loops visit them: the
  comma-separated pieces of the first entry, then those of the second, and so on. The
  two fields of a piece are what \<^verbatim>\<open>strings.SplitN(p, "=", 2)\<close> returns for it.
\<close>

definition paramPieces :: "string list \<Rightarrow> string list" where
  "paramPieces params = concat (map (Split (CHR '','')) params)"

definition fieldsOf :: "string \<Rightarrow> string \<times> string" where
  "fieldsOf p = (SplitN2 (CHR ''='') p ! 0, SplitN2 (CHR ''='') p ! 1)"

subsection \<open>Concrete descriptors and collaborators\<close>

text \<open>
  A cluster \<open>mycluster\<close> in namespace \<open>default\<close>, with every flag at its default
  (\<^verbatim>\<open>--replicas\<close> defaults to \<open>-1\<close>), and collaborators that answer from fixed
  records: the only existing path is \<open>/tmp/my.cnf\<close>, the template list and the config
  map are the ones given, the schema engine accepts and the user confirms.
\<close>

definition fixtureOpts :: "OpsType \<Rightarrow> OperationsOptions" where
  "fixtureOpts kind =
     \<lparr> Name = ''mycluster'', Namespace = ''default'', ComponentNames = [],
       OpsRequestName = [], TTLSecondsAfterSucceed = 0, OpsType = kind, OpsTypeLower = [],
       ClusterVersionRef = [], RequestCPU = [], RequestMemory = [], LimitCPU = [],
       LimitMemory = [], Replicas = - 1, URLPath = [], Parameters = [],
       KeyValues = Map.empty, CfgTemplateName = [], CfgFile = [], VCTNames = [],
       Storage = [] \<rparr>"

definition fixtureRun :: "OperationsOptions \<Rightarrow> run" where
  "fixtureRun ops = \<lparr> opts = ops, calls = [] \<rparr>"

definition fixtureTpl :: "string \<Rightarrow> ConfigTemplate" where
  "fixtureTpl name =
     \<lparr> tplName = name, tplVolumeName = ''mysql-config'',
       tplConfigConstraintRef = ''mysql-constraints'' \<rparr>"

definition fixtureEnv :: "ConfigTemplate list \<Rightarrow> ConfigMapData \<Rightarrow> (string list, unit) Env" where
  "fixtureEnv tpls cmData =
     \<lparr> Stat = (\<lambda>path. if path = ''/tmp/my.cnf'' then None
                       else Some (CollaboratorError ''no such file or directory'')),
       ClusterGet = (\<lambda>ns name. if name = ''mycluster'' then Inr [''mysql'']
                                else Inl (CollaboratorError ''cluster not found'')),
       NestedStringSlice = (\<lambda>obj fields. (obj, True, None)),
       GetConfigTemplateList = (\<lambda>name ns comp. Inr tpls),
       GetComponentCfgName = (\<lambda>name comp vol. name @ ''-'' @ comp @ ''-'' @ vol),
       GetConfigMap = (\<lambda>ns name. Inr cmData),
       GetConfigConstraint = (\<lambda>name. Inr ()),
       MergeAndValidateConfiguration = (\<lambda>cc base key params. None),
       Confirm = (\<lambda>names. None) \<rparr>"

section \<open>Properties\<close>

subsection \<open>Validate: the checks common to all kinds\<close>

text \<open>
  C9. For every operation kind, \<open>Validate\<close> on a descriptor whose cluster name is empty
  fails with "missing cluster name", and it does so first: the descriptor and the record
  of calls come back as they went in, so no kind-specific validator changed anything, no
  confirmation was asked and no lookup was made, whatever the collaborators would have
  answered.
\<close>

theorem Validate_missing_cluster_name:
  "Name (opts st) = [] \<Longrightarrow> Validate env st = (Some (Errorf ''missing cluster name''), st)"
  by (simp add: Validate_def)

text \<open>
  The Reconfigure command with no cluster name, and HorizontalScale with no cluster
  name and a replica count that its own validator rejects.
\<close>

theorem Validate_missing_cluster_name_witness:
  "Name (opts (fixtureRun ((fixtureOpts ReconfiguringType)\<lparr>Name := []\<rparr>))) = [] \<and>
   Validate (fixtureEnv [] []) (fixtureRun ((fixtureOpts ReconfiguringType)\<lparr>Name := []\<rparr>)) =
     (Some (Errorf ''missing cluster name''),
      fixtureRun ((fixtureOpts ReconfiguringType)\<lparr>Name := []\<rparr>)) \<and>
   validateHorizontalScaling
     ((fixtureOpts HorizontalScalingType)\<lparr>Name := [], ComponentNames := [''mysql''], Replicas := - 5\<rparr>) =
     Some (Errorf ''replicas required natural number'') \<and>
   Validate (fixtureEnv [] [])
     (fixtureRun ((fixtureOpts HorizontalScalingType)
        \<lparr>Name := [], ComponentNames := [''mysql''], Replicas := - 5\<rparr>)) =
     (Some (Errorf ''missing cluster name''),
      fixtureRun ((fixtureOpts HorizontalScalingType)
        \<lparr>Name := [], ComponentNames := [''mysql''], Replicas := - 5\<rparr>))"
  using Validate_missing_cluster_name
    [of "fixtureRun ((fixtureOpts ReconfiguringType)\<lparr>Name := []\<rparr>)" "fixtureEnv [] []"]
    Validate_missing_cluster_name
    [of "fixtureRun ((fixtureOpts HorizontalScalingType)
           \<lparr>Name := [], ComponentNames := [''mysql''], Replicas := - 5\<rparr>)" "fixtureEnv [] []"]
  by (simp add: fixtureRun_def fixtureOpts_def validateHorizontalScaling_def)

text \<open>
  C8, as amended. For VerticalScale, HorizontalScale, VolumeExpand and Reconfigure,
  \<open>Validate\<close> on a descriptor with a cluster name and no component names fails with
  "missing component-names"; the record of calls is unchanged, so no lookup (and no
  confirmation) happened before the failure.
\<close>

theorem Validate_missing_component_names:
  "Name (opts st) \<noteq> [] \<Longrightarrow>
   OpsType (opts st) \<in>
     {VerticalScalingType, HorizontalScalingType, VolumeExpansionType, ReconfiguringType} \<Longrightarrow>
   ComponentNames (opts st) = [] \<Longrightarrow>
   Validate env st = (Some (Errorf ''missing component-names''), st)"
  by (auto simp add: Validate_def)

text \<open>The four kinds on \<open>mycluster\<close> with no component names.\<close>

theorem Validate_missing_component_names_witness:
  "Name (opts (fixtureRun (fixtureOpts VolumeExpansionType))) \<noteq> [] \<and>
   ComponentNames (opts (fixtureRun (fixtureOpts VolumeExpansionType))) = [] \<and>
   Validate (fixtureEnv [] []) (fixtureRun (fixtureOpts VolumeExpansionType)) =
     (Some (Errorf ''missing component-names''), fixtureRun (fixtureOpts VolumeExpansionType)) \<and>
   Validate (fixtureEnv [] []) (fixtureRun (fixtureOpts VerticalScalingType)) =
     (Some (Errorf ''missing component-names''), fixtureRun (fixtureOpts VerticalScalingType)) \<and>
   Validate (fixtureEnv [] []) (fixtureRun (fixtureOpts HorizontalScalingType)) =
     (Some (Errorf ''missing component-names''), fixtureRun (fixtureOpts HorizontalScalingType)) \<and>
   Validate (fixtureEnv [] []) (fixtureRun (fixtureOpts ReconfiguringType)) =
     (Some (Errorf ''missing component-names''), fixtureRun (fixtureOpts ReconfiguringType))"
  using Validate_missing_component_names
    [of "fixtureRun (fixtureOpts VolumeExpansionType)" "fixtureEnv [] []"]
    Validate_missing_component_names
    [of "fixtureRun (fixtureOpts VerticalScalingType)" "fixtureEnv [] []"]
    Validate_missing_component_names
    [of "fixtureRun (fixtureOpts HorizontalScalingType)" "fixtureEnv [] []"]
    Validate_missing_component_names
    [of "fixtureRun (fixtureOpts ReconfiguringType)" "fixtureEnv [] []"]
  by (simp add: fixtureRun_def fixtureOpts_def)

text \<open>
  C8 as stated fails when the cluster name is empty too: VerticalScale with neither a
  cluster name nor component names fails with "missing cluster name", not with
  "missing component-names".
\<close>

theorem Validate_missing_component_names_counterexample:
  "OpsType ((fixtureOpts VerticalScalingType)\<lparr>Name := []\<rparr>) = VerticalScalingType \<and>
   ComponentNames ((fixtureOpts VerticalScalingType)\<lparr>Name := []\<rparr>) = [] \<and>
   fst (Validate (fixtureEnv [] []) (fixtureRun ((fixtureOpts VerticalScalingType)\<lparr>Name := []\<rparr>)))
     = Some (Errorf ''missing cluster name'') \<and>
   fst (Validate (fixtureEnv [] []) (fixtureRun ((fixtureOpts VerticalScalingType)\<lparr>Name := []\<rparr>)))
     \<noteq> Some (Errorf ''missing component-names'')"
  by (simp add: Validate_def fixtureRun_def fixtureOpts_def)

subsection \<open>HorizontalScale\<close>

text \<open>
  C5. What \<open>validateHorizontalScaling\<close> does at the four replica counts of the claim,
  for any descriptor: \<open>-2\<close> fails with "replicas required natural number"; \<open>-1\<close>, \<open>0\<close>
  and \<open>5\<close> pass. The claim has \<open>-1\<close> fail.
\<close>

theorem validateHorizontalScaling_replicas:
  "validateHorizontalScaling (ops\<lparr>Replicas := - 2\<rparr>) =
     Some (Errorf ''replicas required natural number'') \<and>
   validateHorizontalScaling (ops\<lparr>Replicas := - 1\<rparr>) = None \<and>
   validateHorizontalScaling (ops\<lparr>Replicas := 0\<rparr>) = None \<and>
   validateHorizontalScaling (ops\<lparr>Replicas := 5\<rparr>) = None"
  by (simp add: validateHorizontalScaling_def)

subsection \<open>Reconfigure: the number of components and the external file\<close>

text \<open>
  C7, as amended. \<open>validateReconfiguring\<close> fails with "reconfiguring only support one
  component." for every number of component names other than one, before anything else.
  In a run of \<open>Validate\<close> for Reconfigure (cluster name given) the same error comes back
  for two or more component names; the descriptor and the record of calls are unchanged.
\<close>

theorem validateReconfiguring_only_one_component:
  "(length (ComponentNames (opts st)) \<noteq> 1 \<longrightarrow>
      validateReconfiguring env st =
        (Some (MakeError ''reconfiguring only support one component.''), st)) \<and>
   (Name (opts st) \<noteq> [] \<and> OpsType (opts st) = ReconfiguringType \<and>
    length (ComponentNames (opts st)) > 1 \<longrightarrow>
      Validate env st = (Some (MakeError ''reconfiguring only support one component.''), st))"
  by (auto simp add: validateReconfiguring_def Validate_def)

text \<open>Reconfigure of two components at once, and of none.\<close>

theorem validateReconfiguring_only_one_component_witness:
  "length (ComponentNames (opts (fixtureRun
     ((fixtureOpts ReconfiguringType)\<lparr>ComponentNames := [''mysql'', ''proxy'']\<rparr>)))) = 2 \<and>
   validateReconfiguring (fixtureEnv [] [])
     (fixtureRun ((fixtureOpts ReconfiguringType)\<lparr>ComponentNames := [''mysql'', ''proxy'']\<rparr>)) =
     (Some (MakeError ''reconfiguring only support one component.''),
      fixtureRun ((fixtureOpts ReconfiguringType)\<lparr>ComponentNames := [''mysql'', ''proxy'']\<rparr>)) \<and>
   Validate (fixtureEnv [] [])
     (fixtureRun ((fixtureOpts ReconfiguringType)\<lparr>ComponentNames := [''mysql'', ''proxy'']\<rparr>)) =
     (Some (MakeError ''reconfiguring only support one component.''),
      fixtureRun ((fixtureOpts ReconfiguringType)\<lparr>ComponentNames := [''mysql'', ''proxy'']\<rparr>)) \<and>
   validateReconfiguring (fixtureEnv [] []) (fixtureRun (fixtureOpts ReconfiguringType)) =
     (Some (MakeError ''reconfiguring only support one component.''),
      fixtureRun (fixtureOpts ReconfiguringType))"
  using validateReconfiguring_only_one_component
    [of "fixtureRun ((fixtureOpts ReconfiguringType)\<lparr>ComponentNames := [''mysql'', ''proxy'']\<rparr>)"
        "fixtureEnv [] []"]
    validateReconfiguring_only_one_component
    [of "fixtureRun (fixtureOpts ReconfiguringType)" "fixtureEnv [] []"]
  by (simp add: fixtureRun_def fixtureOpts_def)

text \<open>
  C7 as stated fails in a run of \<open>Validate\<close> with no component name: the common check
  comes first, and the error is "missing component-names".
\<close>

theorem validateReconfiguring_only_one_component_counterexample:
  "OpsType (opts (fixtureRun (fixtureOpts ReconfiguringType))) = ReconfiguringType \<and>
   length (ComponentNames (opts (fixtureRun (fixtureOpts ReconfiguringType)))) = 0 \<and>
   fst (Validate (fixtureEnv [] []) (fixtureRun (fixtureOpts ReconfiguringType))) =
     Some (Errorf ''missing component-names'') \<and>
   fst (Validate (fixtureEnv [] []) (fixtureRun (fixtureOpts ReconfiguringType))) \<noteq>
     Some (MakeError ''reconfiguring only support one component.'')"
  by (simp add: Validate_def fixtureRun_def fixtureOpts_def)

text \<open>
  C4, as amended. For every Reconfigure descriptor with exactly one component name and a
  non-empty \<open>URLPath\<close>, \<open>validateReconfiguring\<close> only checks that the path exists: when
  the check fails, the error is the check's error wrapped in "failed to check if (path)
  exists"; when it succeeds, validation succeeds. Either way the descriptor is returned
  as it was (so \<open>KeyValues\<close>, \<open>CfgTemplateName\<close> and \<open>CfgFile\<close> are untouched) and the
  one call made is the existence check: no template list, config map or constraint was
  fetched.
\<close>

theorem validateReconfiguring_url_path:
  "length (ComponentNames (opts st)) = 1 \<Longrightarrow> URLPath (opts st) \<noteq> [] \<Longrightarrow>
   (\<forall>err. Stat env (URLPath (opts st)) = Some err \<longrightarrow>
      fst (validateReconfiguring env st) =
        Some (WrapError err (''failed to check if '' @ URLPath (opts st) @ '' exists''))) \<and>
   (Stat env (URLPath (opts st)) = None \<longrightarrow> fst (validateReconfiguring env st) = None) \<and>
   opts (snd (validateReconfiguring env st)) = opts st \<and>
   calls (snd (validateReconfiguring env st)) = calls st @ [LocalStat (URLPath (opts st))]"
  by (auto simp add: validateReconfiguring_def called_def split: option.splits)

text \<open>One component, with the existing file \<open>/tmp/my.cnf\<close> and with a missing one.\<close>

theorem validateReconfiguring_url_path_witness:
  "length (ComponentNames (opts (fixtureRun ((fixtureOpts ReconfiguringType)
     \<lparr>ComponentNames := [''mysql''], URLPath := ''/tmp/my.cnf''\<rparr>)))) = 1 \<and>
   Stat (fixtureEnv [] []) ''/tmp/my.cnf'' = None \<and>
   fst (validateReconfiguring (fixtureEnv [] []) (fixtureRun ((fixtureOpts ReconfiguringType)
     \<lparr>ComponentNames := [''mysql''], URLPath := ''/tmp/my.cnf''\<rparr>))) = None \<and>
   calls (snd (validateReconfiguring (fixtureEnv [] []) (fixtureRun ((fixtureOpts ReconfiguringType)
     \<lparr>ComponentNames := [''mysql''], URLPath := ''/tmp/my.cnf''\<rparr>)))) = [LocalStat ''/tmp/my.cnf''] \<and>
   fst (validateReconfiguring (fixtureEnv [] []) (fixtureRun ((fixtureOpts ReconfiguringType)
     \<lparr>ComponentNames := [''mysql''], URLPath := ''/tmp/gone.cnf''\<rparr>))) =
     Some (WrapError (CollaboratorError ''no such file or directory'')
             ''failed to check if /tmp/gone.cnf exists'')"
  using validateReconfiguring_url_path
    [of "fixtureRun ((fixtureOpts ReconfiguringType)
           \<lparr>ComponentNames := [''mysql''], URLPath := ''/tmp/my.cnf''\<rparr>)" "fixtureEnv [] []"]
    validateReconfiguring_url_path
    [of "fixtureRun ((fixtureOpts ReconfiguringType)
           \<lparr>ComponentNames := [''mysql''], URLPath := ''/tmp/gone.cnf''\<rparr>)" "fixtureEnv [] []"]
  by (simp add: fixtureRun_def fixtureOpts_def fixtureEnv_def)

text \<open>
  C4 as stated fails for a descriptor with two component names: the file exists, and
  validation fails with "reconfiguring only support one component." without looking at
  the path.
\<close>

theorem validateReconfiguring_url_path_counterexample:
  "URLPath ((fixtureOpts ReconfiguringType)
     \<lparr>ComponentNames := [''mysql'', ''proxy''], URLPath := ''/tmp/my.cnf''\<rparr>) \<noteq> [] \<and>
   Stat (fixtureEnv [] []) ''/tmp/my.cnf'' = None \<and>
   validateReconfiguring (fixtureEnv [] []) (fixtureRun ((fixtureOpts ReconfiguringType)
     \<lparr>ComponentNames := [''mysql'', ''proxy''], URLPath := ''/tmp/my.cnf''\<rparr>)) =
     (Some (MakeError ''reconfiguring only support one component.''),
      fixtureRun ((fixtureOpts ReconfiguringType)
        \<lparr>ComponentNames := [''mysql'', ''proxy''], URLPath := ''/tmp/my.cnf''\<rparr>)) \<and>
   calls (fixtureRun ((fixtureOpts ReconfiguringType)
     \<lparr>ComponentNames := [''mysql'', ''proxy''], URLPath := ''/tmp/my.cnf''\<rparr>)) = []"
  by (simp add: validateReconfiguring_def fixtureRun_def fixtureOpts_def fixtureEnv_def)

subsection \<open>Reconfigure: parsing the parameter list\<close>

text \<open>Splitting: a string has two fields exactly when it contains the separator.\<close>

lemma SplitN2_length: "(length (SplitN2 sep p) = 2) = (sep \<in> set p)"
  by (simp add: SplitN2_def)

lemma SplitN2_decomp: "sep \<notin> set k \<Longrightarrow> SplitN2 sep (k @ sep # v) = [k, v]"
  by (induction k) (auto simp: SplitN2_def)

lemma SplitN2_recompose:
  "sep \<in> set p \<Longrightarrow>
   p = (SplitN2 sep p ! 0) @ sep # (SplitN2 sep p ! 1) \<and> sep \<notin> set (SplitN2 sep p ! 0)"
proof -
  assume a: "sep \<in> set p"
  let ?P = "\<lambda>c. c \<noteq> sep"
  have ne: "dropWhile ?P p \<noteq> []" using a by (simp add: dropWhile_eq_Nil_conv)
  have "\<not> ?P (hd (dropWhile ?P p))" using ne by (rule hd_dropWhile)
  then have h: "hd (dropWhile ?P p) = sep" by simp
  have "p = takeWhile ?P p @ dropWhile ?P p" by simp
  also have "dropWhile ?P p = sep # tl (dropWhile ?P p)"
    using ne h by (cases "dropWhile ?P p") auto
  finally have "p = takeWhile ?P p @ sep # tl (dropWhile ?P p)" .
  moreover have "sep \<notin> set (takeWhile ?P p)" by (auto dest: set_takeWhileD)
  ultimately show ?thesis using a by (simp add: SplitN2_def)
qed

lemma Split_nonempty: "Split sep s \<noteq> []"
  by (induction s) auto

text \<open>
  The same equation as the definition's, in a form that evaluates a concrete string in
  one pass.
\<close>

lemma Split_Cons:
  "Split sep (c # cs) =
     (if c = sep then [] # Split sep cs
      else (case Split sep cs of [] \<Rightarrow> [] | w # ws \<Rightarrow> (c # w) # ws))"
  using Split_nonempty [of sep cs] by (cases "Split sep cs") auto

declare Split.simps(2) [simp del]

declare Split_Cons [simp]

text \<open>
  The loops: they fail exactly when some piece has no \<open>=\<close>, and otherwise store the
  fields of every piece, later pieces over earlier ones.
\<close>

lemma parsePairs_fst:
  "fst (parsePairs pp kv) =
     (if \<forall>p\<in>set pp. CHR ''='' \<in> set p then None
      else Some (MakeError ''updated parameter formatter: key=value''))"
  by (induction pp arbitrary: kv) (auto simp: SplitN2_length Let_def)

lemma parsePairs_ok:
  "\<forall>p\<in>set pp. CHR ''='' \<in> set p \<Longrightarrow>
   parsePairs pp kv = (None, kv ++ map_of (rev (map fieldsOf pp)))"
  by (induction pp arbitrary: kv) (auto simp: SplitN2_length Let_def fieldsOf_def)

lemma parseParams_fst:
  "fst (parseParams params kv) =
     (if \<forall>p\<in>set (paramPieces params). CHR ''='' \<in> set p then None
      else Some (MakeError ''updated parameter formatter: key=value''))"
proof (induction params arbitrary: kv)
  case Nil
  then show ?case by (simp add: paramPieces_def)
next
  case (Cons param rest)
  obtain r kv' where pp: "parsePairs (Split (CHR '','') param) kv = (r, kv')"
    by (cases "parsePairs (Split (CHR '','') param) kv")
  have r: "r = (if \<forall>p\<in>set (Split (CHR '','') param). CHR ''='' \<in> set p then None
      else Some (MakeError ''updated parameter formatter: key=value''))"
    using parsePairs_fst [of "Split (CHR '','') param" kv] pp by simp
  show ?case
  proof (cases "\<forall>p\<in>set (Split (CHR '','') param). CHR ''='' \<in> set p")
    case True
    then show ?thesis using pp r Cons.IH [of kv'] by (simp add: paramPieces_def ball_Un)
  next
    case False
    then show ?thesis using pp r by (auto simp add: paramPieces_def)
  qed
qed

lemma parseParams_ok:
  "\<forall>p\<in>set (paramPieces params). CHR ''='' \<in> set p \<Longrightarrow>
   parseParams params kv = (None, kv ++ map_of (rev (map fieldsOf (paramPieces params))))"
proof (induction params arbitrary: kv)
  case Nil
  then show ?case by (simp add: paramPieces_def)
next
  case (Cons param rest)
  have a: "\<forall>p\<in>set (Split (CHR '','') param). CHR ''='' \<in> set p"
    and b: "\<forall>p\<in>set (paramPieces rest). CHR ''='' \<in> set p"
    using Cons.prems by (auto simp: paramPieces_def)
  show ?case
    using parsePairs_ok [OF a, of kv] Cons.IH [OF b]
    by (simp add: paramPieces_def)
qed

lemma last_piece_wins:
  assumes ok: "\<forall>p\<in>set pieces. CHR ''='' \<in> set p"
    and dec: "pieces = xs @ (k @ CHR ''='' # v) # ys"
    and k: "CHR ''='' \<notin> set k"
    and later: "\<forall>q\<in>set ys. \<forall>v'. q \<noteq> k @ CHR ''='' # v'"
  shows "(kv ++ map_of (rev (map fieldsOf pieces))) k = Some v"
proof -
  have f: "fieldsOf (k @ CHR ''='' # v) = (k, v)"
    using k by (simp add: fieldsOf_def SplitN2_decomp)
  have "k \<notin> fst ` set (map fieldsOf ys)"
  proof
    assume "k \<in> fst ` set (map fieldsOf ys)"
    then obtain q where q: "q \<in> set ys" and fq: "fst (fieldsOf q) = k" by auto
    have "CHR ''='' \<in> set q" using ok dec q by simp
    from SplitN2_recompose [OF this] fq have "q = k @ CHR ''='' # (SplitN2 (CHR ''='') q ! 1)"
      by (simp add: fieldsOf_def)
    with later q show False by blast
  qed
  then have "map_of (rev (map fieldsOf ys)) k = None"
    by (simp add: map_of_eq_None_iff)
  then show ?thesis
    using f by (simp add: dec map_add_def)
qed

lemma dom_pieces:
  assumes ok: "\<forall>p\<in>set pieces. CHR ''='' \<in> set p"
  shows "(k \<in> dom (map_of (rev (map fieldsOf pieces)))) =
         (\<exists>v. k @ CHR ''='' # v \<in> set pieces \<and> CHR ''='' \<notin> set k)"
proof
  assume "k \<in> dom (map_of (rev (map fieldsOf pieces)))"
  then have "k \<in> fst ` set (map fieldsOf pieces)" by (simp add: dom_map_of_conv_image_fst)
  then obtain q where q: "q \<in> set pieces" and fq: "fst (fieldsOf q) = k" by auto
  have "CHR ''='' \<in> set q" using ok q by simp
  from SplitN2_recompose [OF this] fq
  have "q = k @ CHR ''='' # (SplitN2 (CHR ''='') q ! 1)" and "CHR ''='' \<notin> set k"
    by (simp_all add: fieldsOf_def)
  with q show "\<exists>v. k @ CHR ''='' # v \<in> set pieces \<and> CHR ''='' \<notin> set k" by metis
next
  assume "\<exists>v. k @ CHR ''='' # v \<in> set pieces \<and> CHR ''='' \<notin> set k"
  then obtain v where v: "k @ CHR ''='' # v \<in> set pieces" and k: "CHR ''='' \<notin> set k" by blast
  have "fieldsOf (k @ CHR ''='' # v) = (k, v)" using k by (simp add: fieldsOf_def SplitN2_decomp)
  then have "k \<in> fst ` set (map fieldsOf pieces)" using v by force
  then show "k \<in> dom (map_of (rev (map fieldsOf pieces)))" by (simp add: dom_map_of_conv_image_fst)
qed

lemma validateUpdatedParams_run:
  "Parameters ops \<noteq> [] \<or> URLPath ops \<noteq> [] \<Longrightarrow>
   validateUpdatedParams ops =
     (fst (parseParams (Parameters ops) Map.empty),
      ops\<lparr>KeyValues := snd (parseParams (Parameters ops) Map.empty)\<rparr>)"
  by (auto simp add: validateUpdatedParams_def split: prod.splits)

text \<open>
  C1, as amended. For every parameter list that is not empty (and for the empty one
  when a file path is given), \<open>validateUpdatedParams\<close> parses it into \<open>KeyValues\<close>. Every
  entry is split on commas into pieces. If some piece has no \<open>=\<close>, the method fails
  with "updated parameter formatter: key=value". Otherwise it succeeds and changes
  nothing but \<open>KeyValues\<close>, whose keys are exactly the texts before the first \<open>=\<close> of
  the pieces, and where a piece \<open>k=v\<close> (no \<open>=\<close> in \<open>k\<close>) that no later piece with the
  same key follows gives \<open>k\<close> the value \<open>v\<close>: the last occurrence in the given order
  wins. The three inputs of the claim: \<open>bad_token\<close> fails with the formatter error;
  \<open>max_connections=1000,general_log=OFF\<close> yields the two bindings; \<open>a=1\<close> then \<open>a=2\<close>
  yields \<open>a\<close> bound to \<open>2\<close>. With an empty parameter list and no file path nothing
  is parsed: the method fails with "reconfiguring required configure file or updated
  parameters." and leaves the descriptor as it was.
\<close>

theorem validateUpdatedParams_parses:
  "((\<exists>p\<in>set (paramPieces (Parameters ops)). CHR ''='' \<notin> set p) \<longrightarrow>
      fst (validateUpdatedParams ops) =
        Some (MakeError ''updated parameter formatter: key=value'')) \<and>
   ((Parameters ops \<noteq> [] \<or> URLPath ops \<noteq> []) \<and>
    (\<forall>p\<in>set (paramPieces (Parameters ops)). CHR ''='' \<in> set p) \<longrightarrow>
      fst (validateUpdatedParams ops) = None \<and>
      snd (validateUpdatedParams ops) =
        ops\<lparr>KeyValues := KeyValues (snd (validateUpdatedParams ops))\<rparr> \<and>
      (\<forall>k. (k \<in> dom (KeyValues (snd (validateUpdatedParams ops)))) =
           (\<exists>v. k @ CHR ''='' # v \<in> set (paramPieces (Parameters ops)) \<and>
                CHR ''='' \<notin> set k)) \<and>
      (\<forall>xs k v ys.
         paramPieces (Parameters ops) = xs @ (k @ CHR ''='' # v) # ys \<and>
         CHR ''='' \<notin> set k \<and> (\<forall>q\<in>set ys. \<forall>v'. q \<noteq> k @ CHR ''='' # v') \<longrightarrow>
         KeyValues (snd (validateUpdatedParams ops)) k = Some v)) \<and>
   fst (validateUpdatedParams (ops\<lparr>Parameters := [''bad_token'']\<rparr>)) =
     Some (MakeError ''updated parameter formatter: key=value'') \<and>
   validateUpdatedParams (ops\<lparr>Parameters := [''max_connections=1000,general_log=OFF'']\<rparr>) =
     (None, ops\<lparr>Parameters := [''max_connections=1000,general_log=OFF''],
                 KeyValues := [''max_connections'' \<mapsto> ''1000'', ''general_log'' \<mapsto> ''OFF'']\<rparr>) \<and>
   validateUpdatedParams (ops\<lparr>Parameters := [''a=1'', ''a=2'']\<rparr>) =
     (None, ops\<lparr>Parameters := [''a=1'', ''a=2''], KeyValues := [''a'' \<mapsto> ''2'']\<rparr>) \<and>
   (Parameters ops = [] \<and> URLPath ops = [] \<longrightarrow>
      validateUpdatedParams ops =
        (Some (MakeError ''reconfiguring required configure file or updated parameters.''), ops))"
proof (intro conjI impI)
  assume bad: "\<exists>p\<in>set (paramPieces (Parameters ops)). CHR ''='' \<notin> set p"
  then have "Parameters ops \<noteq> []" by (auto simp: paramPieces_def)
  then show "fst (validateUpdatedParams ops) =
      Some (MakeError ''updated parameter formatter: key=value'')"
    using bad by (simp add: validateUpdatedParams_run parseParams_fst)
next
  assume a: "(Parameters ops \<noteq> [] \<or> URLPath ops \<noteq> []) \<and>
    (\<forall>p\<in>set (paramPieces (Parameters ops)). CHR ''='' \<in> set p)"
  then have g: "Parameters ops \<noteq> [] \<or> URLPath ops \<noteq> []"
    and ok: "\<forall>p\<in>set (paramPieces (Parameters ops)). CHR ''='' \<in> set p" by blast+
  have run: "validateUpdatedParams ops =
     (None, ops\<lparr>KeyValues := map_of (rev (map fieldsOf (paramPieces (Parameters ops))))\<rparr>)"
    using validateUpdatedParams_run [OF g] parseParams_ok [OF ok, of Map.empty] by simp
  show "fst (validateUpdatedParams ops) = None" using run by simp
  show "snd (validateUpdatedParams ops) =
      ops\<lparr>KeyValues := KeyValues (snd (validateUpdatedParams ops))\<rparr>"
    using run by simp
  show "\<forall>k. (k \<in> dom (KeyValues (snd (validateUpdatedParams ops)))) =
           (\<exists>v. k @ CHR ''='' # v \<in> set (paramPieces (Parameters ops)) \<and>
                CHR ''='' \<notin> set k)"
    using run dom_pieces [OF ok] by simp
  show "\<forall>xs k v ys.
         paramPieces (Parameters ops) = xs @ (k @ CHR ''='' # v) # ys \<and>
         CHR ''='' \<notin> set k \<and> (\<forall>q\<in>set ys. \<forall>v'. q \<noteq> k @ CHR ''='' # v') \<longrightarrow>
         KeyValues (snd (validateUpdatedParams ops)) k = Some v"
  proof (intro allI impI)
    fix xs k v ys
    assume h: "paramPieces (Parameters ops) = xs @ (k @ CHR ''='' # v) # ys \<and>
         CHR ''='' \<notin> set k \<and> (\<forall>q\<in>set ys. \<forall>v'. q \<noteq> k @ CHR ''='' # v')"
    then have "(Map.empty ++ map_of (rev (map fieldsOf (paramPieces (Parameters ops))))) k = Some v"
      using last_piece_wins [OF ok, of xs k v ys Map.empty] by blast
    then show "KeyValues (snd (validateUpdatedParams ops)) k = Some v" using run by simp
  qed
next
  show "fst (validateUpdatedParams (ops\<lparr>Parameters := [''bad_token'']\<rparr>)) =
     Some (MakeError ''updated parameter formatter: key=value'')"
    by (simp add: validateUpdatedParams_def SplitN2_def)
next
  show "validateUpdatedParams (ops\<lparr>Parameters := [''max_connections=1000,general_log=OFF'']\<rparr>) =
     (None, ops\<lparr>Parameters := [''max_connections=1000,general_log=OFF''],
                 KeyValues := [''max_connections'' \<mapsto> ''1000'', ''general_log'' \<mapsto> ''OFF'']\<rparr>)"
    by (simp add: validateUpdatedParams_def SplitN2_def)
next
  show "validateUpdatedParams (ops\<lparr>Parameters := [''a=1'', ''a=2'']\<rparr>) =
     (None, ops\<lparr>Parameters := [''a=1'', ''a=2''], KeyValues := [''a'' \<mapsto> ''2'']\<rparr>)"
    by (simp add: validateUpdatedParams_def SplitN2_def)
next
  assume "Parameters ops = [] \<and> URLPath ops = []"
  then show "validateUpdatedParams ops =
      (Some (MakeError ''reconfiguring required configure file or updated parameters.''), ops)"
    by (simp add: validateUpdatedParams_def)
qed

text \<open>
  Two entries with a repeated key across them, and an entry with an empty piece (two
  commas in a row), which has no \<open>=\<close>.
\<close>

theorem validateUpdatedParams_parses_witness:
  "paramPieces (Parameters ((fixtureOpts ReconfiguringType)\<lparr>Parameters := [''a=1,b=2'', ''a=3'']\<rparr>)) =
     [''a=1'', ''b=2'', ''a=3''] \<and>
   fst (validateUpdatedParams
     ((fixtureOpts ReconfiguringType)\<lparr>Parameters := [''a=1,b=2'', ''a=3'']\<rparr>)) = None \<and>
   KeyValues (snd (validateUpdatedParams
     ((fixtureOpts ReconfiguringType)\<lparr>Parameters := [''a=1,b=2'', ''a=3'']\<rparr>))) ''a'' = Some ''3'' \<and>
   KeyValues (snd (validateUpdatedParams
     ((fixtureOpts ReconfiguringType)\<lparr>Parameters := [''a=1,b=2'', ''a=3'']\<rparr>))) ''b'' = Some ''2'' \<and>
   paramPieces (Parameters ((fixtureOpts ReconfiguringType)\<lparr>Parameters := [''a=1,,b=2'']\<rparr>)) =
     [''a=1'', [], ''b=2''] \<and>
   fst (validateUpdatedParams ((fixtureOpts ReconfiguringType)\<lparr>Parameters := [''a=1,,b=2'']\<rparr>)) =
     Some (MakeError ''updated parameter formatter: key=value'')"
proof -
  let ?ops = "(fixtureOpts ReconfiguringType)\<lparr>Parameters := [''a=1,b=2'', ''a=3'']\<rparr>"
  let ?bad = "(fixtureOpts ReconfiguringType)\<lparr>Parameters := [''a=1,,b=2'']\<rparr>"
  have split: "paramPieces [''a=1,b=2'', ''a=3''] = [''a=1'', ''b=2'', ''a=3'']"
    by (simp add: paramPieces_def)
  have split': "paramPieces [''a=1,,b=2''] = [''a=1'', [], ''b=2'']"
    by (simp add: paramPieces_def)
  have pieces: "paramPieces (Parameters ?ops) = [''a=1'', ''b=2'', ''a=3'']"
    by (simp add: split)
  have pieces': "paramPieces (Parameters ?bad) = [''a=1'', [], ''b=2'']"
    by (simp add: split')
  have ok: "(Parameters ?ops \<noteq> [] \<or> URLPath ?ops \<noteq> []) \<and>
    (\<forall>p\<in>set (paramPieces (Parameters ?ops)). CHR ''='' \<in> set p)"
    by (simp add: split)
  note main = validateUpdatedParams_parses [of ?ops]
  have r: "fst (validateUpdatedParams ?ops) = None"
    and lw: "\<And>xs k v ys. paramPieces (Parameters ?ops) = xs @ (k @ CHR ''='' # v) # ys \<and>
         CHR ''='' \<notin> set k \<and> (\<forall>q\<in>set ys. \<forall>v'. q \<noteq> k @ CHR ''='' # v') \<Longrightarrow>
         KeyValues (snd (validateUpdatedParams ?ops)) k = Some v"
    using main ok by blast+
  have a: "KeyValues (snd (validateUpdatedParams ?ops)) ''a'' = Some ''3''"
    using lw [of "[''a=1'', ''b=2'']" "''a''" "''3''" "[]"] by (simp add: split)
  have b: "KeyValues (snd (validateUpdatedParams ?ops)) ''b'' = Some ''2''"
    using lw [of "[''a=1'']" "''b''" "''2''" "[''a=3'']"] by (simp add: split)
  have "\<exists>p\<in>set (paramPieces (Parameters ?bad)). CHR ''='' \<notin> set p"
    by (simp add: split')
  then have e: "fst (validateUpdatedParams ?bad) =
      Some (MakeError ''updated parameter formatter: key=value'')"
    using validateUpdatedParams_parses [of ?bad] by blast
  show ?thesis using pieces pieces' r a b e by simp
qed

text \<open>
  C1 as stated fails for the empty parameter list with no file path, which is what the
  command without \<open>--set\<close> gives: the list has no piece, so none is malformed, and yet
  the method fails, with "reconfiguring required configure file or updated
  parameters.", and builds no mapping.
\<close>

theorem validateUpdatedParams_parses_counterexample:
  "Parameters (fixtureOpts ReconfiguringType) = [] \<and>
   URLPath (fixtureOpts ReconfiguringType) = [] \<and>
   paramPieces (Parameters (fixtureOpts ReconfiguringType)) = [] \<and>
   validateUpdatedParams (fixtureOpts ReconfiguringType) =
     (Some (MakeError ''reconfiguring required configure file or updated parameters.''),
      fixtureOpts ReconfiguringType) \<and>
   fst (validateUpdatedParams (fixtureOpts ReconfiguringType)) \<noteq> None \<and>
   fst (validateUpdatedParams (fixtureOpts ReconfiguringType)) \<noteq>
     Some (MakeError ''updated parameter formatter: key=value'')"
  by (simp add: validateUpdatedParams_def paramPieces_def fixtureOpts_def)

subsection \<open>Reconfigure: choosing the template\<close>

lemma find_first: "\<exists>x\<in>set xs. P x \<Longrightarrow> find P xs = Some (hd (filter P xs))"
  by (induction xs) auto

text \<open>
  C2. \<open>validateTemplateParam\<close>, for every descriptor and every fetched template list:
  an empty list fails with "not support reconfiguring because there is no config
  template."; with no template name given and exactly one template, that template is
  chosen and its name is written into \<open>CfgTemplateName\<close>; with no name given and more
  than one template it fails with "when multi templates exist, must specify which
  template to use."; with a name given (and a non-empty list), the first template whose
  name equals the given one is chosen and the descriptor is unchanged, and when no
  template has that name it fails with "specify template name[(name)] is not exist.".
\<close>

theorem validateTemplateParam_selects:
  "(tpls = [] \<longrightarrow>
      validateTemplateParam ops tpls =
        (Inl (MakeError ''not support reconfiguring because there is no config template.''), ops)) \<and>
   (CfgTemplateName ops = [] \<and> tpls = [tpl] \<longrightarrow>
      validateTemplateParam ops tpls = (Inr tpl, ops\<lparr>CfgTemplateName := tplName tpl\<rparr>)) \<and>
   (CfgTemplateName ops = [] \<and> length tpls > 1 \<longrightarrow>
      validateTemplateParam ops tpls =
        (Inl (MakeError ''when multi templates exist, must specify which template to use.''), ops)) \<and>
   (CfgTemplateName ops \<noteq> [] \<and> (\<exists>t\<in>set tpls. tplName t = CfgTemplateName ops) \<longrightarrow>
      validateTemplateParam ops tpls =
        (Inr (hd (filter (\<lambda>t. tplName t = CfgTemplateName ops) tpls)), ops)) \<and>
   (CfgTemplateName ops \<noteq> [] \<and> tpls \<noteq> [] \<and>
    (\<forall>t\<in>set tpls. tplName t \<noteq> CfgTemplateName ops) \<longrightarrow>
      validateTemplateParam ops tpls =
        (Inl (MakeError (''specify template name['' @ CfgTemplateName ops @ ''] is not exist.'')),
         ops))"
proof (intro conjI impI)
  assume "CfgTemplateName ops \<noteq> [] \<and> (\<exists>t\<in>set tpls. tplName t = CfgTemplateName ops)"
  then have n: "CfgTemplateName ops \<noteq> []"
    and e: "\<exists>t\<in>set tpls. tplName t = CfgTemplateName ops"
    by blast+
  from e have "tpls \<noteq> []" by auto
  then show "validateTemplateParam ops tpls =
        (Inr (hd (filter (\<lambda>t. tplName t = CfgTemplateName ops) tpls)), ops)"
    using n find_first [OF e] by (simp add: validateTemplateParam_def)
next
  assume "CfgTemplateName ops \<noteq> [] \<and> tpls \<noteq> [] \<and>
    (\<forall>t\<in>set tpls. tplName t \<noteq> CfgTemplateName ops)"
  then have n: "CfgTemplateName ops \<noteq> []" and t: "tpls \<noteq> []"
    and a: "\<forall>t\<in>set tpls. tplName t \<noteq> CfgTemplateName ops" by blast+
  from a have "find (\<lambda>t. tplName t = CfgTemplateName ops) tpls = None"
    by (simp add: find_None_iff)
  then show "validateTemplateParam ops tpls =
        (Inl (MakeError (''specify template name['' @ CfgTemplateName ops @ ''] is not exist.'')),
         ops)"
    using n t by (simp add: validateTemplateParam_def)
qed (auto simp add: validateTemplateParam_def)

text \<open>
  No template; one template and no name; two templates and no name; two templates and
  the name of the second; two templates and a name that differs from the second's in
  the case of one letter.
\<close>

theorem validateTemplateParam_selects_witness:
  "validateTemplateParam (fixtureOpts ReconfiguringType) [] =
     (Inl (MakeError ''not support reconfiguring because there is no config template.''),
      fixtureOpts ReconfiguringType) \<and>
   validateTemplateParam (fixtureOpts ReconfiguringType) [fixtureTpl ''mysql-3node-tpl''] =
     (Inr (fixtureTpl ''mysql-3node-tpl''),
      (fixtureOpts ReconfiguringType)\<lparr>CfgTemplateName := ''mysql-3node-tpl''\<rparr>) \<and>
   validateTemplateParam (fixtureOpts ReconfiguringType)
       [fixtureTpl ''mysql-3node-tpl'', fixtureTpl ''proxy-tpl''] =
     (Inl (MakeError ''when multi templates exist, must specify which template to use.''),
      fixtureOpts ReconfiguringType) \<and>
   validateTemplateParam ((fixtureOpts ReconfiguringType)\<lparr>CfgTemplateName := ''proxy-tpl''\<rparr>)
       [fixtureTpl ''mysql-3node-tpl'', fixtureTpl ''proxy-tpl''] =
     (Inr (fixtureTpl ''proxy-tpl''),
      (fixtureOpts ReconfiguringType)\<lparr>CfgTemplateName := ''proxy-tpl''\<rparr>) \<and>
   validateTemplateParam ((fixtureOpts ReconfiguringType)\<lparr>CfgTemplateName := ''Proxy-tpl''\<rparr>)
       [fixtureTpl ''mysql-3node-tpl'', fixtureTpl ''proxy-tpl''] =
     (Inl (MakeError ''specify template name[Proxy-tpl] is not exist.''),
      (fixtureOpts ReconfiguringType)\<lparr>CfgTemplateName := ''Proxy-tpl''\<rparr>)"
  using validateTemplateParam_selects
      [of "[]" "fixtureOpts ReconfiguringType" "fixtureTpl ''mysql-3node-tpl''"]
    validateTemplateParam_selects
      [of "[fixtureTpl ''mysql-3node-tpl'']" "fixtureOpts ReconfiguringType"
          "fixtureTpl ''mysql-3node-tpl''"]
    validateTemplateParam_selects
      [of "[fixtureTpl ''mysql-3node-tpl'', fixtureTpl ''proxy-tpl'']"
          "fixtureOpts ReconfiguringType" "fixtureTpl ''mysql-3node-tpl''"]
    validateTemplateParam_selects
      [of "[fixtureTpl ''mysql-3node-tpl'', fixtureTpl ''proxy-tpl'']"
          "(fixtureOpts ReconfiguringType)\<lparr>CfgTemplateName := ''proxy-tpl''\<rparr>"
          "fixtureTpl ''mysql-3node-tpl''"]
    validateTemplateParam_selects
      [of "[fixtureTpl ''mysql-3node-tpl'', fixtureTpl ''proxy-tpl'']"
          "(fixtureOpts ReconfiguringType)\<lparr>CfgTemplateName := ''Proxy-tpl''\<rparr>"
          "fixtureTpl ''mysql-3node-tpl''"]
  by (simp add: fixtureOpts_def fixtureTpl_def)

subsection \<open>Reconfigure: choosing the configuration file\<close>

text \<open>
  C3. \<open>validateConfigMapKey\<close>, once the config map is fetched: a map with no key fails
  with "not support reconfiguring because there is no config file."; with no file name
  given and exactly one key, that key is written into \<open>CfgFile\<close> and validation
  succeeds; with a file name given that is not a key of the (non-empty) map it fails
  with "specify file name[(name)] is not exist.". In the two failures the descriptor is
  unchanged.
\<close>

theorem validateConfigMapKey_cases:
  "GetConfigMap env (Namespace (opts st))
     (GetComponentCfgName env (Name (opts st)) componentName (tplVolumeName tpl)) = Inr cmData \<Longrightarrow>
   (cmData = [] \<longrightarrow>
      fst (validateConfigMapKey env st tpl componentName) =
        Some (MakeError ''not support reconfiguring because there is no config file.'') \<and>
      opts (snd (validateConfigMapKey env st tpl componentName)) = opts st) \<and>
   (CfgFile (opts st) = [] \<and> cmData = [(k, v)] \<longrightarrow>
      fst (validateConfigMapKey env st tpl componentName) = None \<and>
      opts (snd (validateConfigMapKey env st tpl componentName)) = (opts st)\<lparr>CfgFile := k\<rparr>) \<and>
   (CfgFile (opts st) \<noteq> [] \<and> cmData \<noteq> [] \<and> CfgFile (opts st) \<notin> fst ` set cmData \<longrightarrow>
      fst (validateConfigMapKey env st tpl componentName) =
        Some (MakeError (''specify file name['' @ CfgFile (opts st) @ ''] is not exist.'')) \<and>
      opts (snd (validateConfigMapKey env st tpl componentName)) = opts st)"
  by (auto simp add: validateConfigMapKey_def called_def Let_def map_of_eq_None_iff)

text \<open>
  An empty config map; the config map with the one file \<open>my.cnf\<close> and no file name
  given; the same map and the file name \<open>other.cnf\<close>.
\<close>

theorem validateConfigMapKey_cases_witness:
  "fst (validateConfigMapKey (fixtureEnv [] []) (fixtureRun (fixtureOpts ReconfiguringType))
          (fixtureTpl ''mysql-3node-tpl'') ''mysql'') =
     Some (MakeError ''not support reconfiguring because there is no config file.'') \<and>
   fst (validateConfigMapKey (fixtureEnv [] [(''my.cnf'', ''[mysqld]'')])
          (fixtureRun (fixtureOpts ReconfiguringType)) (fixtureTpl ''mysql-3node-tpl'') ''mysql'') =
     None \<and>
   CfgFile (opts (snd (validateConfigMapKey (fixtureEnv [] [(''my.cnf'', ''[mysqld]'')])
          (fixtureRun (fixtureOpts ReconfiguringType)) (fixtureTpl ''mysql-3node-tpl'') ''mysql''))) =
     ''my.cnf'' \<and>
   fst (validateConfigMapKey (fixtureEnv [] [(''my.cnf'', ''[mysqld]'')])
          (fixtureRun ((fixtureOpts ReconfiguringType)\<lparr>CfgFile := ''other.cnf''\<rparr>))
          (fixtureTpl ''mysql-3node-tpl'') ''mysql'') =
     Some (MakeError ''specify file name[other.cnf] is not exist.'')"
  using validateConfigMapKey_cases
      [of "fixtureEnv [] []" "fixtureRun (fixtureOpts ReconfiguringType)" "''mysql''"
          "fixtureTpl ''mysql-3node-tpl''" "[]" "[]" "[]"]
    validateConfigMapKey_cases
      [of "fixtureEnv [] [(''my.cnf'', ''[mysqld]'')]" "fixtureRun (fixtureOpts ReconfiguringType)"
          "''mysql''" "fixtureTpl ''mysql-3node-tpl''" "[(''my.cnf'', ''[mysqld]'')]"
          "''my.cnf''" "''[mysqld]''"]
    validateConfigMapKey_cases
      [of "fixtureEnv [] [(''my.cnf'', ''[mysqld]'')]"
          "fixtureRun ((fixtureOpts ReconfiguringType)\<lparr>CfgFile := ''other.cnf''\<rparr>)"
          "''mysql''" "fixtureTpl ''mysql-3node-tpl''" "[(''my.cnf'', ''[mysqld]'')]"
          "''my.cnf''" "''[mysqld]''"]
  by (simp add: fixtureEnv_def fixtureRun_def fixtureOpts_def)

text \<open>
  C10, as amended. When the fetched config map has more than one key, none of them the
  empty string, and no file name was given, \<open>validateConfigMapKey\<close> does not fill
  \<open>CfgFile\<close> in and raises no error about the ambiguity: the membership check runs with
  the empty name and fails with "specify file name[] is not exist.". And whenever
  \<open>validateConfigMapKey\<close> changes the descriptor, the map has exactly one key and no file
  name was given.
\<close>

theorem validateConfigMapKey_many_keys:
  "GetConfigMap env (Namespace (opts st))
     (GetComponentCfgName env (Name (opts st)) componentName (tplVolumeName tpl)) = Inr cmData \<Longrightarrow>
   (length cmData > 1 \<and> CfgFile (opts st) = [] \<and> [] \<notin> fst ` set cmData \<longrightarrow>
      fst (validateConfigMapKey env st tpl componentName) =
        Some (MakeError ''specify file name[] is not exist.'') \<and>
      opts (snd (validateConfigMapKey env st tpl componentName)) = opts st) \<and>
   (opts (snd (validateConfigMapKey env st tpl componentName)) \<noteq> opts st \<longrightarrow>
      length cmData = 1 \<and> CfgFile (opts st) = [])"
  by (auto simp add: validateConfigMapKey_def called_def Let_def map_of_eq_None_iff)

text \<open>The config map with the two files \<open>my.cnf\<close> and \<open>my.ini\<close>, and no file name.\<close>

theorem validateConfigMapKey_many_keys_witness:
  "length [(''my.cnf'', ''[mysqld]''), (''my.ini'', ''[client]'')] = 2 \<and>
   validateConfigMapKey (fixtureEnv [] [(''my.cnf'', ''[mysqld]''), (''my.ini'', ''[client]'')])
       (fixtureRun (fixtureOpts ReconfiguringType)) (fixtureTpl ''mysql-3node-tpl'') ''mysql'' =
     (Some (MakeError ''specify file name[] is not exist.''),
      \<lparr> opts = fixtureOpts ReconfiguringType,
        calls = [RemoteGetConfigMap ''default'' ''mycluster-mysql-mysql-config''] \<rparr>)"
proof -
  let ?r = "validateConfigMapKey (fixtureEnv [] [(''my.cnf'', ''[mysqld]''), (''my.ini'', ''[client]'')])
       (fixtureRun (fixtureOpts ReconfiguringType)) (fixtureTpl ''mysql-3node-tpl'') ''mysql''"
  have "fst ?r = Some (MakeError ''specify file name[] is not exist.'') \<and>
        opts (snd ?r) = opts (fixtureRun (fixtureOpts ReconfiguringType))"
    using validateConfigMapKey_many_keys
      [of "fixtureEnv [] [(''my.cnf'', ''[mysqld]''), (''my.ini'', ''[client]'')]"
          "fixtureRun (fixtureOpts ReconfiguringType)" "''mysql''"
          "fixtureTpl ''mysql-3node-tpl''" "[(''my.cnf'', ''[mysqld]''), (''my.ini'', ''[client]'')]"]
    by (simp add: fixtureEnv_def fixtureRun_def fixtureOpts_def)
  moreover have "calls (snd ?r) = [RemoteGetConfigMap ''default'' ''mycluster-mysql-mysql-config'']"
    by (simp add: validateConfigMapKey_def called_def fixtureEnv_def fixtureRun_def
        fixtureOpts_def fixtureTpl_def)
  ultimately show ?thesis
    by (cases ?r) (auto simp add: fixtureRun_def)
qed

text \<open>
  C10 as stated fails for a config map with two keys of which one is the empty string:
  the membership check finds the empty file name among the keys, and validation
  succeeds with \<open>CfgFile\<close> still empty.
\<close>

theorem validateConfigMapKey_many_keys_counterexample:
  "length [([], ''x''), (''my.cnf'', ''[mysqld]'')] = 2 \<and>
   CfgFile (fixtureOpts ReconfiguringType) = [] \<and>
   validateConfigMapKey (fixtureEnv [] [([], ''x''), (''my.cnf'', ''[mysqld]'')])
       (fixtureRun (fixtureOpts ReconfiguringType)) (fixtureTpl ''mysql-3node-tpl'') ''mysql'' =
     (None, \<lparr> opts = fixtureOpts ReconfiguringType,
              calls = [RemoteGetConfigMap ''default'' ''mycluster-mysql-mysql-config''] \<rparr>)"
  by (simp add: validateConfigMapKey_def called_def fixtureEnv_def fixtureRun_def
      fixtureOpts_def fixtureTpl_def)

subsection \<open>Restart: completing the component names\<close>

text \<open>
  C6. \<open>CompleteRestartOps\<close> on a descriptor with no component names fetches the cluster
  record (the one call it makes) and reads \<open>status.operations.restartable\<close> from it.
  When the record cannot be fetched, the fetch's error is returned; when the nested
  field cannot be read, that error is returned; when both succeed, the list read is
  stored as the component names and there is no error. So there is no error only if
  both reads succeeded: no failure is dropped.
\<close>

theorem CompleteRestartOps_fills_or_fails:
  "ComponentNames (opts st) = [] \<Longrightarrow>
   calls (snd (CompleteRestartOps env st)) =
     calls st @ [RemoteGetCluster (Namespace (opts st)) (Name (opts st))] \<and>
   (\<forall>err. ClusterGet env (Namespace (opts st)) (Name (opts st)) = Inl err \<longrightarrow>
      fst (CompleteRestartOps env st) = Some err) \<and>
   (\<forall>obj names found err.
      ClusterGet env (Namespace (opts st)) (Name (opts st)) = Inr obj \<and>
      NestedStringSlice env obj [''status'', ''operations'', ''restartable''] =
        (names, found, Some err) \<longrightarrow>
      fst (CompleteRestartOps env st) = Some err) \<and>
   (\<forall>obj names found.
      ClusterGet env (Namespace (opts st)) (Name (opts st)) = Inr obj \<and>
      NestedStringSlice env obj [''status'', ''operations'', ''restartable''] =
        (names, found, None) \<longrightarrow>
      fst (CompleteRestartOps env st) = None \<and>
      opts (snd (CompleteRestartOps env st)) = (opts st)\<lparr>ComponentNames := names\<rparr>) \<and>
   (fst (CompleteRestartOps env st) = None \<longrightarrow>
      (\<exists>obj found.
         ClusterGet env (Namespace (opts st)) (Name (opts st)) = Inr obj \<and>
         NestedStringSlice env obj [''status'', ''operations'', ''restartable''] =
           (ComponentNames (opts (snd (CompleteRestartOps env st))), found, None)))"
  by (auto simp add: CompleteRestartOps_def called_def Let_def split: sum.splits prod.splits)

text \<open>
  Restart of \<open>mycluster\<close>, whose record lists \<open>mysql\<close> as restartable; restart of a
  cluster that does not exist; restart of \<open>mycluster\<close> when the nested field cannot be
  read.
\<close>

theorem CompleteRestartOps_fills_or_fails_witness:
  "ComponentNames (opts (fixtureRun (fixtureOpts RestartType))) = [] \<and>
   fst (CompleteRestartOps (fixtureEnv [] []) (fixtureRun (fixtureOpts RestartType))) = None \<and>
   ComponentNames (opts (snd (CompleteRestartOps (fixtureEnv [] [])
     (fixtureRun (fixtureOpts RestartType))))) = [''mysql''] \<and>
   calls (snd (CompleteRestartOps (fixtureEnv [] []) (fixtureRun (fixtureOpts RestartType)))) =
     [RemoteGetCluster ''default'' ''mycluster''] \<and>
   fst (CompleteRestartOps (fixtureEnv [] [])
     (fixtureRun ((fixtureOpts RestartType)\<lparr>Name := ''nocluster''\<rparr>))) =
     Some (CollaboratorError ''cluster not found'') \<and>
   fst (CompleteRestartOps
     ((fixtureEnv [] [])\<lparr>NestedStringSlice :=
        (\<lambda>obj fields. ([], False, Some (CollaboratorError ''accessor error'')))\<rparr>)
     (fixtureRun (fixtureOpts RestartType))) =
     Some (CollaboratorError ''accessor error'')"
proof -
  let ?env = "fixtureEnv [] []"
  let ?env' = "(fixtureEnv [] [])\<lparr>NestedStringSlice :=
        (\<lambda>obj fields. ([], False, Some (CollaboratorError ''accessor error'')))\<rparr>"
  let ?st = "fixtureRun (fixtureOpts RestartType)"
  let ?st' = "fixtureRun ((fixtureOpts RestartType)\<lparr>Name := ''nocluster''\<rparr>)"
  have none: "ComponentNames (opts ?st) = []" and none': "ComponentNames (opts ?st') = []"
    by (simp_all add: fixtureRun_def fixtureOpts_def)
  have get: "ClusterGet ?env (Namespace (opts ?st)) (Name (opts ?st)) = Inr [''mysql'']"
    and read: "NestedStringSlice ?env [''mysql''] [''status'', ''operations'', ''restartable''] =
        ([''mysql''], True, None)"
    and get': "ClusterGet ?env (Namespace (opts ?st')) (Name (opts ?st')) =
        Inl (CollaboratorError ''cluster not found'')"
    and get'': "ClusterGet ?env' (Namespace (opts ?st)) (Name (opts ?st)) = Inr [''mysql'']"
    and read'': "NestedStringSlice ?env' [''mysql''] [''status'', ''operations'', ''restartable''] =
        ([], False, Some (CollaboratorError ''accessor error''))"
    by (simp_all add: fixtureEnv_def fixtureRun_def fixtureOpts_def)
  have a: "fst (CompleteRestartOps ?env ?st) = None \<and>
      opts (snd (CompleteRestartOps ?env ?st)) = (opts ?st)\<lparr>ComponentNames := [''mysql'']\<rparr>"
    using CompleteRestartOps_fills_or_fails [OF none, of ?env] get read by blast
  have b: "calls (snd (CompleteRestartOps ?env ?st)) = [RemoteGetCluster ''default'' ''mycluster'']"
    using CompleteRestartOps_fills_or_fails [OF none, of ?env]
    by (simp add: fixtureRun_def fixtureOpts_def)
  have c: "fst (CompleteRestartOps ?env ?st') = Some (CollaboratorError ''cluster not found'')"
    using CompleteRestartOps_fills_or_fails [OF none', of ?env] get' by blast
  have d: "fst (CompleteRestartOps ?env' ?st) = Some (CollaboratorError ''accessor error'')"
    using CompleteRestartOps_fills_or_fails [OF none, of ?env'] get'' read'' by blast
  show ?thesis using none a b c d by simp
qed

subsection \<open>Reconfigure: a complete run\<close>

text \<open>
  A complete run without a file path: \<open>--set max_connections=1000\<close> on the one
  component \<open>mysql\<close>, with one template and one file. The parameter list is parsed, the
  template and the file are filled in, and the template list, the config map and the
  constraint are fetched, in this order.
\<close>

lemma validateReconfiguring_full_run:
  "validateReconfiguring
     (fixtureEnv [fixtureTpl ''mysql-3node-tpl''] [(''my.cnf'', ''[mysqld]'')])
     (fixtureRun ((fixtureOpts ReconfiguringType)
        \<lparr>ComponentNames := [''mysql''], Parameters := [''max_connections=1000'']\<rparr>)) =
   (None,
    \<lparr> opts = (fixtureOpts ReconfiguringType)
        \<lparr>ComponentNames := [''mysql''], Parameters := [''max_connections=1000''],
         KeyValues := [''max_connections'' \<mapsto> ''1000''],
         CfgTemplateName := ''mysql-3node-tpl'', CfgFile := ''my.cnf''\<rparr>,
      calls = [RemoteGetTemplateList ''mycluster'' ''default'' ''mysql'',
               RemoteGetConfigMap ''default'' ''mycluster-mysql-mysql-config'',
               RemoteGetConfigConstraint ''mysql-constraints''] \<rparr>)"
  by (simp add: validateReconfiguring_def validateUpdatedParams_def validateTemplateParam_def
      validateConfigMapKey_def validateConfigParams_def called_def SplitN2_def Let_def
      fixtureEnv_def fixtureRun_def fixtureOpts_def fixtureTpl_def)

end
